theory Spec2Isabelle
  imports Complex_Main "HOL-Library.AList" "HOL-Library.Word"
begin

section \<open>Template variables\<close>

text \<open>
  The sources are Jinja templates. Two conditions select the optional parts of
  \<^verbatim>\<open>src/api/health.py\<close>:
  \<^verbatim>\<open>values.database != "none" and values.orm != "none"\<close> and
  \<^verbatim>\<open>values.cache == "elasticache-redis"\<close>.
\<close>

record template_values =
  database :: string
  orm :: string
  cache :: string

definition db_configured :: "template_values \<Rightarrow> bool" where
  "db_configured values = (database values \<noteq> ''none'' \<and> orm values \<noteq> ''none'')"

definition redis_configured :: "template_values \<Rightarrow> bool" where
  "redis_configured values = (cache values = ''elasticache-redis'')"

section \<open>Health probes: \<^verbatim>\<open>src/api/health.py\<close>\<close>

datatype HealthStatus = HEALTHY | DEGRADED | UNHEALTHY

text \<open>The string value of each member of the \<^verbatim>\<open>str\<close> enum.\<close>

fun HealthStatus_value :: "HealthStatus \<Rightarrow> string" where
  "HealthStatus_value HEALTHY = ''healthy''"
| "HealthStatus_value DEGRADED = ''degraded''"
| "HealthStatus_value UNHEALTHY = ''unhealthy''"

text \<open>
  Python floats are idealised as reals throughout. \<^verbatim>\<open>None\<close> defaults of the
  pydantic models are \<open>None\<close> of an option type.
\<close>

record ComponentHealth =
  status :: HealthStatus
  latency_ms :: "real option"
  message :: "string option"

text \<open>
  \<^verbatim>\<open>components: dict[str, ComponentHealth] | None\<close>. The dictionary is an association
  list in insertion order; \<^verbatim>\<open>d[k] = v\<close> is \<^const>\<open>AList.update\<close>.
\<close>

record HealthResponse =
  status :: HealthStatus
  version :: string
  timestamp :: string
  components :: "(string \<times> ComponentHealth) list option"

text \<open>
  The \<^verbatim>\<open>Response\<close> object that FastAPI injects into a handler, and that the
  middleware receives from \<^verbatim>\<open>call_next\<close>. The injected one starts with
  \<^verbatim>\<open>status_code = None\<close>. Its \<^verbatim>\<open>headers\<close> are Starlette's header mapping, a
  partial function from header name to value.
\<close>

record Response =
  status_code :: "nat option"
  headers :: "string \<rightharpoonup> string"

definition HTTP_503_SERVICE_UNAVAILABLE :: nat where
  "HTTP_503_SERVICE_UNAVAILABLE = 503"

text \<open>
  A handler's effects are explicit: next to what it returns, the component checkers it
  awaited, in order. A handler that takes the injected response object returns it as the
  handler leaves it.
\<close>

datatype checker = check_db_health_call | check_redis_health_call

record 'a handled =
  returned :: 'a
  awaited :: "checker list"

text \<open>
  \<^verbatim>\<open>liveness\<close>: builds the model with \<^verbatim>\<open>status=HealthStatus.HEALTHY\<close>, the configured
  version and the current time; \<^verbatim>\<open>components\<close> keeps its default. The arguments
  \<open>settings_version\<close> and \<open>now\<close> stand for \<^verbatim>\<open>settings.version\<close> and
  \<^verbatim>\<open>datetime.now(timezone.utc).isoformat()\<close>.
\<close>

definition liveness :: "string \<Rightarrow> string \<Rightarrow> HealthResponse handled" where
  "liveness settings_version now =
     \<lparr> returned = \<lparr> HealthResponse.status = HEALTHY, version = settings_version,
                     timestamp = now, components = None \<rparr>,
       awaited = [] \<rparr>"

text \<open>
  \<^verbatim>\<open>readiness\<close>, statement by statement. \<open>db_health\<close> and \<open>redis_health\<close> are the
  values that \<^verbatim>\<open>await check_db_health()\<close> and \<^verbatim>\<open>await check_redis_health()\<close>
  return; each is read only inside its template block.
\<close>

definition readiness ::
  "template_values \<Rightarrow> string \<Rightarrow> string \<Rightarrow> ComponentHealth \<Rightarrow> ComponentHealth \<Rightarrow> Response
     \<Rightarrow> (HealthResponse \<times> Response) handled" where
  "readiness values settings_version now db_health redis_health resp =
     (let components0 = [];
          overall_status0 = HEALTHY;
          calls0 = [];
          (components1, overall_status1, calls1) =
            (if db_configured values then
               (AList.update ''database'' db_health components0,
                (if ComponentHealth.status db_health \<noteq> HEALTHY then UNHEALTHY
                 else overall_status0),
                calls0 @ [check_db_health_call])
             else (components0, overall_status0, calls0));
          (components2, overall_status2, calls2) =
            (if redis_configured values then
               (AList.update ''redis'' redis_health components1,
                (if ComponentHealth.status redis_health \<noteq> HEALTHY then
                   (if overall_status1 = HEALTHY then DEGRADED else overall_status1)
                 else overall_status1),
                calls1 @ [check_redis_health_call])
             else (components1, overall_status1, calls1));
          resp' = (if overall_status2 \<noteq> HEALTHY
                   then resp\<lparr> status_code := Some HTTP_503_SERVICE_UNAVAILABLE \<rparr>
                   else resp)
      in \<lparr> returned =
             (\<lparr> HealthResponse.status = overall_status2, version = settings_version,
                timestamp = now,
                components = (if components2 \<noteq> [] then Some components2 else None) \<rparr>,
              resp'),
           awaited = calls2 \<rparr>)"

text \<open>\<^verbatim>\<open>startup\<close>: \<^verbatim>\<open>return await readiness(response)\<close>.\<close>

definition startup ::
  "template_values \<Rightarrow> string \<Rightarrow> string \<Rightarrow> ComponentHealth \<Rightarrow> ComponentHealth \<Rightarrow> Response
     \<Rightarrow> (HealthResponse \<times> Response) handled" where
  "startup values settings_version now db_health redis_health resp =
     readiness values settings_version now db_health redis_health resp"

text \<open>\<^verbatim>\<open>health\<close> returns a plain dictionary with three string entries.\<close>

definition health :: "string \<Rightarrow> string \<Rightarrow> (string \<times> string) list handled" where
  "health settings_version now =
     \<lparr> returned = [(''status'', ''healthy''), (''version'', settings_version),
                    (''timestamp'', now)],
       awaited = [] \<rparr>"

subsection \<open>The routes of \<^verbatim>\<open>health_router\<close>\<close>

text \<open>
  What a route sends: the status code and the body. FastAPI calls a handler that asks
  for the response object with a fresh one whose status code is unset, and answers with
  the status code the handler set, with 200 when it set none.
\<close>

datatype body = Model HealthResponse | Dict "(string \<times> string) list"

record reply =
  http_status :: nat
  http_body :: body
  checkers_awaited :: "checker list"

definition fresh_response :: Response where
  "fresh_response = \<lparr> status_code = None, headers = Map.empty \<rparr>"

definition answer :: "Response \<Rightarrow> body \<Rightarrow> checker list \<Rightarrow> reply" where
  "answer resp b calls =
     \<lparr> http_status = (case status_code resp of None \<Rightarrow> 200 | Some c \<Rightarrow> c),
       http_body = b,
       checkers_awaited = calls \<rparr>"

definition health_router ::
  "template_values \<Rightarrow> string \<Rightarrow> string \<Rightarrow> ComponentHealth \<Rightarrow> ComponentHealth \<Rightarrow> string
     \<Rightarrow> reply option" where
  "health_router values settings_version now db_health redis_health path =
     (if path = ''/health/live'' then
        (let h = liveness settings_version now
         in Some (answer fresh_response (Model (returned h)) (awaited h)))
      else if path = ''/health/ready'' then
        (let h = readiness values settings_version now db_health redis_health fresh_response
         in Some (answer (snd (returned h)) (Model (fst (returned h))) (awaited h)))
      else if path = ''/health/startup'' then
        (let h = startup values settings_version now db_health redis_health fresh_response
         in Some (answer (snd (returned h)) (Model (fst (returned h))) (awaited h)))
      else if path = ''/health'' then
        (let h = health settings_version now
         in Some (answer fresh_response (Dict (returned h)) (awaited h)))
      else None)"

subsection \<open>The body on the wire\<close>

text \<open>
  The JSON document that FastAPI sends for what a handler returned. The three probe
  routes are declared with \<^verbatim>\<open>response_model=HealthResponse\<close> and with no option that
  leaves fields out, so every field of the model is written, and a field that is
  \<^verbatim>\<open>None\<close> is written as \<^verbatim>\<open>null\<close>. The dictionary that \<^verbatim>\<open>health\<close> returns is written
  as it is.
\<close>

datatype json = JNull | JString string | JNumber real | JObject "(string \<times> json) list"

definition ComponentHealth_json :: "ComponentHealth \<Rightarrow> json" where
  "ComponentHealth_json c =
     JObject [(''status'', JString (HealthStatus_value (ComponentHealth.status c))),
              (''latency_ms'', (case latency_ms c of None \<Rightarrow> JNull | Some x \<Rightarrow> JNumber x)),
              (''message'', (case message c of None \<Rightarrow> JNull | Some s \<Rightarrow> JString s))]"

definition HealthResponse_json :: "HealthResponse \<Rightarrow> json" where
  "HealthResponse_json m =
     JObject [(''status'', JString (HealthStatus_value (HealthResponse.status m))),
              (''version'', JString (version m)),
              (''timestamp'', JString (timestamp m)),
              (''components'',
                 (case components m of
                    None \<Rightarrow> JNull
                  | Some cs \<Rightarrow> JObject (map (\<lambda>kc. (fst kc, ComponentHealth_json (snd kc))) cs)))]"

definition body_json :: "body \<Rightarrow> json" where
  "body_json b =
     (case b of
        Model m \<Rightarrow> HealthResponse_json m
      | Dict kvs \<Rightarrow> JObject (map (\<lambda>kv. (fst kv, JString (snd kv))) kvs))"

text \<open>The names of the fields of a JSON object, in order.\<close>

fun json_fields :: "json \<Rightarrow> string list" where
  "json_fields (JObject kvs) = map fst kvs"
| "json_fields j = []"

text \<open>The JSON document a route sends, if the path is one of the four routes.\<close>

definition route_json ::
  "template_values \<Rightarrow> string \<Rightarrow> string \<Rightarrow> ComponentHealth \<Rightarrow> ComponentHealth \<Rightarrow> string
     \<Rightarrow> json option" where
  "route_json values settings_version now db_health redis_health path =
     map_option (\<lambda>rep. body_json (http_body rep))
       (health_router values settings_version now db_health redis_health path)"

section \<open>Python values, exceptions and the logger\<close>

text \<open>
  An awaited call either returns or raises. A raised exception is an instance of
  \<^verbatim>\<open>Exception\<close>, which is what every \<^verbatim>\<open>except\<close> clause of the sources names; it is
  represented by its description \<^verbatim>\<open>str(e)\<close>.
\<close>

datatype 'a result = Return 'a | Raise string

datatype py_value = PyStr string | PyInt nat | PyFloat real | PyNone

datatype log_level = INFO | ERROR

text \<open>A call \<^verbatim>\<open>logger.info(event, **kwargs)\<close> or \<^verbatim>\<open>logger.error(event, **kwargs)\<close>.\<close>

record log_event =
  level :: log_level
  event :: string
  kwargs :: "(string \<times> py_value) list"

text \<open>
  The state that the request pipeline reads and writes: the context variable
  \<^verbatim>\<open>correlation_id_ctx\<close> of \<^verbatim>\<open>src/core/logging.py\<close> (default \<^verbatim>\<open>""\<close>) and the
  events handed to the logger so far.
\<close>

record world =
  correlation_id_ctx :: string
  logged :: "log_event list"

definition emit :: "log_event \<Rightarrow> world \<Rightarrow> world" where
  "emit ev w = w\<lparr> logged := logged w @ [ev] \<rparr>"

text \<open>
  The builtin \<^verbatim>\<open>round(x, ndigits)\<close> on the idealised floats: the nearest multiple of
  \<open>10 ^ - ndigits\<close>, a tie going to the even one.
\<close>

definition round_half_even :: "real \<Rightarrow> int" where
  "round_half_even x =
     (let f = \<lfloor>x\<rfloor>; d = x - of_int f
      in if d < 1 / 2 then f else if 1 / 2 < d then f + 1
         else if even f then f else f + 1)"

definition py_round :: "real \<Rightarrow> nat \<Rightarrow> real" where
  "py_round x ndigits = of_int (round_half_even (x * 10 ^ ndigits)) / 10 ^ ndigits"

section \<open>Component checkers: \<^verbatim>\<open>src/db/session.py\<close>, \<^verbatim>\<open>src/db/redis.py\<close>\<close>

text \<open>
  \<^verbatim>\<open>check_db_health\<close>. \<open>start\<close> is the reading of \<^verbatim>\<open>time.perf_counter()\<close> before the
  \<^verbatim>\<open>try\<close>, \<open>finish\<close> the reading taken after the probe, in the \<^verbatim>\<open>try\<close> body or in
  the handler. \<open>probe\<close> is the outcome of the block
  \<^verbatim>\<open>async with engine.begin() as conn: await conn.execute(text("SELECT 1"))\<close>.
\<close>

definition check_db_health ::
  "real \<Rightarrow> real \<Rightarrow> unit result \<Rightarrow> world \<Rightarrow> ComponentHealth result \<times> world" where
  "check_db_health start finish probe w =
     (case probe of
        Return u \<Rightarrow>
          (let latency = (finish - start) * 1000
           in (Return \<lparr> ComponentHealth.status = HEALTHY,
                        latency_ms = Some (py_round latency 2), message = None \<rparr>, w))
      | Raise e \<Rightarrow>
          (let latency = (finish - start) * 1000;
               w' = emit \<lparr> level = ERROR, event = ''database_health_check_failed'',
                            kwargs = [(''error'', PyStr e)] \<rparr> w
           in (Return \<lparr> ComponentHealth.status = UNHEALTHY,
                        latency_ms = Some (py_round latency 2), message = Some e \<rparr>, w')))"

text \<open>
  \<^verbatim>\<open>check_redis_health\<close>. \<open>redis_pool\<close> tells whether the module's global pool is set.
  \<open>probe\<close> is the outcome of creating the client, \<^verbatim>\<open>await client.ping()\<close> and
  \<^verbatim>\<open>await client.aclose()\<close>.
\<close>

definition check_redis_health ::
  "bool \<Rightarrow> real \<Rightarrow> real \<Rightarrow> unit result \<Rightarrow> world \<Rightarrow> ComponentHealth result \<times> world" where
  "check_redis_health redis_pool start finish probe w =
     (if \<not> redis_pool then
        (Return \<lparr> ComponentHealth.status = UNHEALTHY, latency_ms = None,
                  message = Some ''Redis pool not initialized'' \<rparr>, w)
      else
        (case probe of
           Return u \<Rightarrow>
             (let latency = (finish - start) * 1000
              in (Return \<lparr> ComponentHealth.status = HEALTHY,
                           latency_ms = Some (py_round latency 2), message = None \<rparr>, w))
         | Raise e \<Rightarrow>
             (let latency = (finish - start) * 1000;
                  w' = emit \<lparr> level = ERROR, event = ''redis_health_check_failed'',
                               kwargs = [(''error'', PyStr e)] \<rparr> w
              in (Return \<lparr> ComponentHealth.status = UNHEALTHY,
                           latency_ms = Some (py_round latency 2), message = Some e \<rparr>, w'))))"

section \<open>Middleware: \<^verbatim>\<open>src/core/middleware.py\<close>\<close>

text \<open>
  The parts of a Starlette \<^verbatim>\<open>Request\<close> that the middleware reads:
  \<^verbatim>\<open>request.method\<close>, \<^verbatim>\<open>request.url.path\<close>, the header mapping and
  \<^verbatim>\<open>request.client\<close> (host and port, or \<^verbatim>\<open>None\<close>).
\<close>

record Request =
  request_method :: string
  path :: string
  headers :: "string \<rightharpoonup> string"
  client :: "(string \<times> nat) option"

text \<open>
  \<^verbatim>\<open>call_next\<close>: the rest of the pipeline. It reads and writes the state and returns a
  response or raises.
\<close>

type_synonym call_next = "Request \<Rightarrow> world \<Rightarrow> Response result \<times> world"

subsection \<open>\<^verbatim>\<open>str(uuid4())\<close>\<close>

text \<open>
  \<^verbatim>\<open>uuid4()\<close> draws a random 128-bit identifier; the draw is an argument. \<^verbatim>\<open>str\<close> of a
  UUID prints its integer as 32 lower-case hexadecimal digits, grouped 8-4-4-4-12.
\<close>

definition hex_digit :: "nat \<Rightarrow> char" where
  "hex_digit n = ''0123456789abcdef'' ! (n mod 16)"

fun hex :: "nat \<Rightarrow> nat \<Rightarrow> string" where
  "hex 0 v = []"
| "hex (Suc n) v = hex n (v div 16) @ [hex_digit v]"

definition UUID_str :: "128 word \<Rightarrow> string" where
  "UUID_str u =
     (let h = hex 32 (unat u)
      in take 8 h @ ''-'' @ take 4 (drop 8 h) @ ''-'' @ take 4 (drop 12 h) @ ''-'' @
         take 4 (drop 16 h) @ ''-'' @ drop 20 h)"

subsection \<open>\<^verbatim>\<open>CorrelationIdMiddleware\<close>\<close>

definition HEADER_NAME :: string where
  "HEADER_NAME = ''X-Correlation-ID''"

text \<open>
  \<^verbatim>\<open>a or b\<close> where \<^verbatim>\<open>a\<close> is \<^verbatim>\<open>None\<close> or a string: \<^verbatim>\<open>b\<close> when \<^verbatim>\<open>a\<close> is \<^verbatim>\<open>None\<close>
  or empty.
\<close>

definition py_or :: "string option \<Rightarrow> string \<Rightarrow> string" where
  "py_or a b = (case a of None \<Rightarrow> b | Some v \<Rightarrow> if v = [] then b else v)"

definition CorrelationIdMiddleware_dispatch ::
  "128 word \<Rightarrow> Request \<Rightarrow> call_next \<Rightarrow> world \<Rightarrow> Response result \<times> world" where
  "CorrelationIdMiddleware_dispatch uuid4 request call_next w =
     (let correlation_id = py_or (Request.headers request HEADER_NAME) (UUID_str uuid4);
          w1 = w\<lparr> correlation_id_ctx := correlation_id \<rparr>;
          (r, w2) = call_next request w1
      in case r of
           Raise e \<Rightarrow> (Raise e, w2)
         | Return response \<Rightarrow>
             (Return (response\<lparr> Response.headers :=
                        (Response.headers response)(HEADER_NAME \<mapsto> correlation_id) \<rparr>), w2))"

subsection \<open>\<^verbatim>\<open>RequestLoggingMiddleware\<close>\<close>

definition startswith :: "string \<Rightarrow> string \<Rightarrow> bool" where
  "startswith s p = (take (length p) s = p)"

text \<open>
  \<open>start_time\<close> and \<open>end_time\<close> are the two readings of \<^verbatim>\<open>time.perf_counter()\<close>,
  before and after \<^verbatim>\<open>call_next\<close>.
\<close>

definition RequestLoggingMiddleware_dispatch ::
  "real \<Rightarrow> real \<Rightarrow> Request \<Rightarrow> call_next \<Rightarrow> world \<Rightarrow> Response result \<times> world" where
  "RequestLoggingMiddleware_dispatch start_time end_time request call_next w =
     (let (r, w1) = call_next request w
      in case r of
           Raise e \<Rightarrow> (Raise e, w1)
         | Return response \<Rightarrow>
             (let duration_ms = (end_time - start_time) * 1000;
                  w2 = (if \<not> startswith (path request) ''/health'' then
                          emit \<lparr> level = INFO, event = ''http_request'',
                                 kwargs =
                                   [(''method'', PyStr (request_method request)),
                                    (''path'', PyStr (path request)),
                                    (''status_code'',
                                       (case status_code response of
                                          None \<Rightarrow> PyNone | Some c \<Rightarrow> PyInt c)),
                                    (''duration_ms'', PyFloat (py_round duration_ms 2)),
                                    (''client_ip'',
                                       (case client request of
                                          None \<Rightarrow> PyNone
                                        | Some (host, port) \<Rightarrow> PyStr host))] \<rparr> w1
                        else w1)
              in (Return response, w2)))"

subsection \<open>\<^verbatim>\<open>SecurityHeadersMiddleware\<close>\<close>

text \<open>
  The ASGI layer. A scope has a type; a message has a type, possibly a header list of
  name and value pairs, and, for the start of a response, a status code. An application
  is known by the messages it passes to \<^verbatim>\<open>send\<close>, in order, and by the exception it
  ends with, if any.
\<close>

record Scope =
  scope_type :: string
  scope_path :: string

record Message =
  message_type :: string
  message_headers :: "(string \<times> string) list option"
  message_status :: "nat option"

type_synonym ASGIApp = "Scope \<Rightarrow> Message list \<times> string option"

definition security_headers :: "(string \<times> string) list" where
  "security_headers =
     [(''x-content-type-options'', ''nosniff''),
      (''x-frame-options'', ''DENY''),
      (''x-xss-protection'', ''1; mode=block''),
      (''strict-transport-security'', ''max-age=31536000; includeSubDomains''),
      (''cache-control'', ''no-store''),
      (''content-security-policy'', ''default-src '' @ [CHR 0x27] @ ''self'' @ [CHR 0x27])]"

text \<open>\<^verbatim>\<open>message.get("headers", [])\<close>\<close>

definition get_headers :: "Message \<Rightarrow> (string \<times> string) list" where
  "get_headers msg = (case message_headers msg of None \<Rightarrow> [] | Some hs \<Rightarrow> hs)"

text \<open>
  \<^verbatim>\<open>send_wrapper\<close> gives the message it passes on to \<^verbatim>\<open>send\<close>. The local
  \<^verbatim>\<open>headers = dict(...)\<close> of the source is never read.
\<close>

definition send_wrapper :: "Message \<Rightarrow> Message" where
  "send_wrapper msg =
     (if message_type msg = ''http.response.start''
      then msg\<lparr> message_headers := Some (get_headers msg @ security_headers) \<rparr>
      else msg)"

definition SecurityHeadersMiddleware :: "ASGIApp \<Rightarrow> ASGIApp" where
  "SecurityHeadersMiddleware app scope =
     (if scope_type scope \<noteq> ''http'' then app scope
      else (let (sent, raised) = app scope in (map send_wrapper sent, raised)))"

section \<open>Reading a result, and applications for the examples\<close>

text \<open>The value of a header on the response that a middleware returned, if it returned one.\<close>

definition response_header :: "Response result \<Rightarrow> string \<Rightarrow> string option" where
  "response_header r name =
     (case r of Return resp \<Rightarrow> Response.headers resp name | Raise e \<Rightarrow> None)"

text \<open>
  A downstream handler that answers 200 and copies the correlation id it finds in the
  context into a header of its own.
\<close>

definition echo_context :: call_next where
  "echo_context request w =
     (Return \<lparr> status_code = Some 200,
               headers = [''x-seen-correlation-id'' \<mapsto> correlation_id_ctx w] \<rparr>, w)"

text \<open>An ASGI application that answers 404 with a JSON body.\<close>

definition not_found_app :: ASGIApp where
  "not_found_app scope =
     ([\<lparr> message_type = ''http.response.start'',
          message_headers = Some [(''content-type'', ''application/json'')],
          message_status = Some 404 \<rparr>,
       \<lparr> message_type = ''http.response.body'', message_headers = None,
          message_status = None \<rparr>], None)"

text \<open>
  What \<^verbatim>\<open>get_example\<close> of \<^verbatim>\<open>src/api/v1/example.py\<close> raises for an identifier that is
  not stored: \<^verbatim>\<open>NotFoundError("Example", str(example_id))\<close>, whose description is
  \<^verbatim>\<open>f"{resource} with id '{resource_id}' not found"\<close>.
\<close>

definition not_found_message :: string where
  "not_found_message =
     ''Example with id '' @ [CHR 0x27] @ ''00000000-0000-0000-0000-000000000000'' @
     [CHR 0x27] @ '' not found''"

text \<open>The rest of the pipeline for that request, seen from a dispatch: it raises.\<close>

definition not_found_handler :: call_next where
  "not_found_handler request w = (Raise not_found_message, w)"

text \<open>
  The same request at the ASGI layer. \<^verbatim>\<open>create_app\<close> in \<^verbatim>\<open>src/main.py\<close> never calls
  \<^verbatim>\<open>configure_exception_handlers\<close>, so no handler is registered for the exception:
  the routed application sends nothing and ends with it.
\<close>

definition unhandled_app :: ASGIApp where
  "unhandled_app scope = ([], Some not_found_message)"

text \<open>
  Starlette's outermost layer, which is not code of this repository. When the
  application it wraps ends with an exception before the start of a response was sent,
  it sends a plain-text 500 response of its own and raises the exception again.
  \<^verbatim>\<open>create_app\<close> adds \<^verbatim>\<open>SecurityHeadersMiddleware\<close> first, which makes it the innermost of
  the added layers; the layers added after it (CORS, request logging, correlation id,
  tracing) and this one wrap it, and each passes an exception on.
\<close>

definition ServerErrorMiddleware :: "ASGIApp \<Rightarrow> ASGIApp" where
  "ServerErrorMiddleware app scope =
     (let (sent, raised) = app scope
      in case raised of
           None \<Rightarrow> (sent, None)
         | Some e \<Rightarrow>
             if list_ex (\<lambda>m. message_type m = ''http.response.start'') sent
             then (sent, Some e)
             else (sent @
                   [\<lparr> message_type = ''http.response.start'',
                      message_headers = Some [(''content-length'', ''21''),
                                              (''content-type'', ''text/plain; charset=utf-8'')],
                      message_status = Some 500 \<rparr>,
                    \<lparr> message_type = ''http.response.body'', message_headers = None,
                      message_status = None \<rparr>], Some e))"

section \<open>Properties of the readiness aggregation\<close>

lemma readiness_status:
  "HealthResponse.status (fst (returned (readiness v ver now d r resp))) =
     (if db_configured v \<and> ComponentHealth.status d \<noteq> HEALTHY then UNHEALTHY
      else if redis_configured v \<and> ComponentHealth.status r \<noteq> HEALTHY then DEGRADED
      else HEALTHY)"
  by (simp add: readiness_def Let_def)

lemma readiness_components:
  "components (fst (returned (readiness v ver now d r resp))) =
     (if db_configured v then
        (if redis_configured v then Some [(''database'', d), (''redis'', r)]
         else Some [(''database'', d)])
      else if redis_configured v then Some [(''redis'', r)] else None)"
  by (simp add: readiness_def Let_def)

lemma readiness_status_code:
  "status_code (snd (returned (readiness v ver now d r resp))) =
     (if HealthResponse.status (fst (returned (readiness v ver now d r resp))) \<noteq> HEALTHY
      then Some 503 else status_code resp)"
  by (simp add: readiness_def Let_def HTTP_503_SERVICE_UNAVAILABLE_def)

lemma readiness_awaited:
  "awaited (readiness v ver now d r resp) =
     (if db_configured v then [check_db_health_call] else []) @
     (if redis_configured v then [check_redis_health_call] else [])"
  by (simp add: readiness_def Let_def)

text \<open>
  C1, as the code has it. The overall status is \<^verbatim>\<open>unhealthy\<close> when the database check is
  configured and reports any status other than \<^verbatim>\<open>healthy\<close>; otherwise it is
  \<^verbatim>\<open>degraded\<close> when the redis check is configured and reports any status other than
  \<^verbatim>\<open>healthy\<close>; otherwise it is \<^verbatim>\<open>healthy\<close>. The database decides between
  \<^verbatim>\<open>unhealthy\<close> and the rest, whatever severity the two components report.
\<close>

theorem readiness_overall_status:
  "HealthResponse.status (fst (returned (readiness v ver now d r resp))) =
     (if db_configured v \<and> ComponentHealth.status d \<noteq> HEALTHY then UNHEALTHY
      else if redis_configured v \<and> ComponentHealth.status r \<noteq> HEALTHY then DEGRADED
      else HEALTHY)"
  by (simp add: readiness_def Let_def)

text \<open>An instance of C1 as amended: healthy database, degraded redis.\<close>

theorem readiness_overall_status_witness:
  "HealthResponse.status (fst (returned (readiness
      \<lparr> database = ''aurora-postgresql'', orm = ''sqlalchemy'', cache = ''elasticache-redis'' \<rparr>
      ''1.0.0'' ''2024-01-01T00:00:00+00:00''
      \<lparr> ComponentHealth.status = HEALTHY, latency_ms = Some 1.5, message = None \<rparr>
      \<lparr> ComponentHealth.status = DEGRADED, latency_ms = None, message = None \<rparr>
      fresh_response))) = DEGRADED"
  using readiness_overall_status [of
      "\<lparr> database = ''aurora-postgresql'', orm = ''sqlalchemy'', cache = ''elasticache-redis'' \<rparr>"
      "''1.0.0''" "''2024-01-01T00:00:00+00:00''"
      "\<lparr> ComponentHealth.status = HEALTHY, latency_ms = Some 1.5, message = None \<rparr>"
      "\<lparr> ComponentHealth.status = DEGRADED, latency_ms = None, message = None \<rparr>"
      fresh_response]
  by (simp add: db_configured_def redis_configured_def)

text \<open>
  C1 as stated fails twice. With a healthy database and a redis check that reports
  \<^verbatim>\<open>unhealthy\<close>, the overall status is \<^verbatim>\<open>degraded\<close>, not \<^verbatim>\<open>unhealthy\<close>. With a
  database check that reports \<^verbatim>\<open>degraded\<close> and a healthy redis, the overall status is
  \<^verbatim>\<open>unhealthy\<close>, not \<^verbatim>\<open>degraded\<close>.
\<close>

theorem readiness_severity_counterexample:
  "HealthResponse.status (fst (returned (readiness
      \<lparr> database = ''aurora-postgresql'', orm = ''sqlalchemy'', cache = ''elasticache-redis'' \<rparr>
      ''1.0.0'' ''2024-01-01T00:00:00+00:00''
      \<lparr> ComponentHealth.status = HEALTHY, latency_ms = Some 1.5, message = None \<rparr>
      \<lparr> ComponentHealth.status = UNHEALTHY, latency_ms = Some 2, message = Some ''timeout'' \<rparr>
      fresh_response))) = DEGRADED
   \<and> HealthResponse.status (fst (returned (readiness
      \<lparr> database = ''aurora-postgresql'', orm = ''sqlalchemy'', cache = ''elasticache-redis'' \<rparr>
      ''1.0.0'' ''2024-01-01T00:00:00+00:00''
      \<lparr> ComponentHealth.status = DEGRADED, latency_ms = Some 1.5, message = None \<rparr>
      \<lparr> ComponentHealth.status = HEALTHY, latency_ms = Some 2, message = None \<rparr>
      fresh_response))) = UNHEALTHY"
  by (simp add: readiness_def Let_def db_configured_def redis_configured_def)

text \<open>
  C2, as the code has it. With both checks configured, exchanging the two reported
  statuses leaves the overall status unchanged exactly when both statuses are
  \<^verbatim>\<open>healthy\<close> or neither is; the status code that the handler sets is the same either
  way.
\<close>

theorem readiness_swap:
  assumes "db_configured v" and "redis_configured v"
  shows "((HealthResponse.status (fst (returned (readiness v ver now a b resp))) =
           HealthResponse.status (fst (returned (readiness v ver now b a resp))))
          = ((ComponentHealth.status a = HEALTHY) = (ComponentHealth.status b = HEALTHY)))
       \<and> status_code (snd (returned (readiness v ver now a b resp))) =
         status_code (snd (returned (readiness v ver now b a resp)))"
proof (cases "ComponentHealth.status a = HEALTHY")
  case True
  with assms show ?thesis
    by (cases "ComponentHealth.status b = HEALTHY")
       (simp_all add: readiness_status readiness_status_code)
next
  case False
  with assms show ?thesis
    by (cases "ComponentHealth.status b = HEALTHY")
       (simp_all add: readiness_status readiness_status_code)
qed

text \<open>
  An instance of C2 as amended: an unhealthy and a degraded report give the same overall
  status in either order.
\<close>

theorem readiness_swap_witness:
  "db_configured \<lparr> database = ''aurora-postgresql'', orm = ''sqlalchemy'', cache = ''elasticache-redis'' \<rparr>
   \<and> redis_configured \<lparr> database = ''aurora-postgresql'', orm = ''sqlalchemy'', cache = ''elasticache-redis'' \<rparr>
   \<and> HealthResponse.status (fst (returned (readiness
        \<lparr> database = ''aurora-postgresql'', orm = ''sqlalchemy'', cache = ''elasticache-redis'' \<rparr>
        ''1.0.0'' ''2024-01-01T00:00:00+00:00''
        \<lparr> ComponentHealth.status = UNHEALTHY, latency_ms = Some 1.5, message = Some ''refused'' \<rparr>
        \<lparr> ComponentHealth.status = DEGRADED, latency_ms = None, message = None \<rparr>
        fresh_response)))
     = HealthResponse.status (fst (returned (readiness
        \<lparr> database = ''aurora-postgresql'', orm = ''sqlalchemy'', cache = ''elasticache-redis'' \<rparr>
        ''1.0.0'' ''2024-01-01T00:00:00+00:00''
        \<lparr> ComponentHealth.status = DEGRADED, latency_ms = None, message = None \<rparr>
        \<lparr> ComponentHealth.status = UNHEALTHY, latency_ms = Some 1.5, message = Some ''refused'' \<rparr>
        fresh_response)))"
proof -
  let ?v = "\<lparr> database = ''aurora-postgresql'', orm = ''sqlalchemy'', cache = ''elasticache-redis'' \<rparr>"
  have db: "db_configured ?v" by (simp add: db_configured_def)
  have redis: "redis_configured ?v" by (simp add: redis_configured_def)
  show ?thesis
    using db redis
      readiness_swap [OF db redis, of "''1.0.0''" "''2024-01-01T00:00:00+00:00''"
        "\<lparr> ComponentHealth.status = UNHEALTHY, latency_ms = Some 1.5, message = Some ''refused'' \<rparr>"
        "\<lparr> ComponentHealth.status = DEGRADED, latency_ms = None, message = None \<rparr>"
        fresh_response]
    by simp
qed

text \<open>
  C2 as stated fails: a healthy database with an unhealthy redis is \<^verbatim>\<open>degraded\<close>, an
  unhealthy database with a healthy redis is \<^verbatim>\<open>unhealthy\<close>.
\<close>

theorem readiness_swap_counterexample:
  "HealthResponse.status (fst (returned (readiness
      \<lparr> database = ''aurora-postgresql'', orm = ''sqlalchemy'', cache = ''elasticache-redis'' \<rparr>
      ''1.0.0'' ''2024-01-01T00:00:00+00:00''
      \<lparr> ComponentHealth.status = HEALTHY, latency_ms = Some 1.5, message = None \<rparr>
      \<lparr> ComponentHealth.status = UNHEALTHY, latency_ms = Some 2, message = Some ''timeout'' \<rparr>
      fresh_response)))
   \<noteq> HealthResponse.status (fst (returned (readiness
      \<lparr> database = ''aurora-postgresql'', orm = ''sqlalchemy'', cache = ''elasticache-redis'' \<rparr>
      ''1.0.0'' ''2024-01-01T00:00:00+00:00''
      \<lparr> ComponentHealth.status = UNHEALTHY, latency_ms = Some 2, message = Some ''timeout'' \<rparr>
      \<lparr> ComponentHealth.status = HEALTHY, latency_ms = Some 1.5, message = None \<rparr>
      fresh_response)))"
  by (simp add: readiness_def Let_def db_configured_def redis_configured_def)

section \<open>Properties of the probe routes\<close>

text \<open>
  C3. \<^verbatim>\<open>GET /health/ready\<close> answers 200 exactly when every configured component
  reports \<^verbatim>\<open>healthy\<close>. Otherwise it answers 503, and the body has a components map whose
  keys are the names of the configured components: \<^verbatim>\<open>database\<close> when the database
  check is configured, \<^verbatim>\<open>redis\<close> when the redis check is.
\<close>

theorem ready_route_status:
  "\<exists>rep m. health_router v ver now d r ''/health/ready'' = Some rep
      \<and> http_body rep = Model m
      \<and> (http_status rep = 200 \<longleftrightarrow>
           (db_configured v \<longrightarrow> ComponentHealth.status d = HEALTHY) \<and>
           (redis_configured v \<longrightarrow> ComponentHealth.status r = HEALTHY))
      \<and> (http_status rep \<noteq> 200 \<longrightarrow>
           http_status rep = 503 \<and>
           (\<exists>c. components m = Some c \<and>
                map fst c = (if db_configured v then [''database''] else []) @
                            (if redis_configured v then [''redis''] else [])))"
proof -
  let ?h = "readiness v ver now d r fresh_response"
  let ?rep = "answer (snd (returned ?h)) (Model (fst (returned ?h))) (awaited ?h)"
  have route: "health_router v ver now d r ''/health/ready'' = Some ?rep"
    by (simp add: health_router_def Let_def)
  have code: "http_status ?rep =
      (if HealthResponse.status (fst (returned ?h)) \<noteq> HEALTHY then 503 else 200)"
    by (simp add: answer_def readiness_status_code fresh_response_def)
  have ok: "http_status ?rep = 200 \<longleftrightarrow>
           (db_configured v \<longrightarrow> ComponentHealth.status d = HEALTHY) \<and>
           (redis_configured v \<longrightarrow> ComponentHealth.status r = HEALTHY)"
    unfolding code by (simp add: readiness_status)
  have bad: "http_status ?rep \<noteq> 200 \<longrightarrow>
           http_status ?rep = 503 \<and>
           (\<exists>c. components (fst (returned ?h)) = Some c \<and>
                map fst c = (if db_configured v then [''database''] else []) @
                            (if redis_configured v then [''redis''] else []))"
    unfolding code by (auto simp: readiness_status readiness_components)
  from route ok bad show ?thesis
    by (intro exI [of _ ?rep] exI [of _ "fst (returned ?h)"]) (simp add: answer_def)
qed

text \<open>
  An instance of C3: both checks configured, the database refusing connections. The
  route answers 503 with the keys \<^verbatim>\<open>database\<close> and \<^verbatim>\<open>redis\<close>.
\<close>

theorem ready_route_status_witness:
  "\<exists>rep m. health_router \<lparr> database = ''aurora-postgresql'', orm = ''sqlalchemy'', cache = ''elasticache-redis'' \<rparr>
        ''1.0.0'' ''2024-01-01T00:00:00+00:00''
        \<lparr> ComponentHealth.status = UNHEALTHY, latency_ms = Some 1.5,
          message = Some ''connection refused'' \<rparr>
        \<lparr> ComponentHealth.status = HEALTHY, latency_ms = Some 0.4, message = None \<rparr>
        ''/health/ready'' = Some rep
      \<and> http_body rep = Model m
      \<and> http_status rep = 503
      \<and> (\<exists>c. components m = Some c \<and> map fst c = [''database'', ''redis''])"
proof -
  let ?v = "\<lparr> database = ''aurora-postgresql'', orm = ''sqlalchemy'', cache = ''elasticache-redis'' \<rparr>"
  have db: "db_configured ?v" by (simp add: db_configured_def)
  have redis: "redis_configured ?v" by (simp add: redis_configured_def)
  let ?d = "\<lparr> ComponentHealth.status = UNHEALTHY, latency_ms = Some 1.5,
              message = Some ''connection refused'' \<rparr>"
  let ?r = "\<lparr> ComponentHealth.status = HEALTHY, latency_ms = Some 0.4, message = None \<rparr>"
  obtain rep m where
    route: "health_router ?v ''1.0.0'' ''2024-01-01T00:00:00+00:00'' ?d ?r ''/health/ready''
              = Some rep"
    and model: "http_body rep = Model m"
    and ok: "http_status rep = 200 \<longleftrightarrow>
               (db_configured ?v \<longrightarrow> ComponentHealth.status ?d = HEALTHY) \<and>
               (redis_configured ?v \<longrightarrow> ComponentHealth.status ?r = HEALTHY)"
    and bad: "http_status rep \<noteq> 200 \<longrightarrow>
               http_status rep = 503 \<and>
               (\<exists>c. components m = Some c \<and>
                    map fst c = (if db_configured ?v then [''database''] else []) @
                                (if redis_configured ?v then [''redis''] else []))"
    using ready_route_status [of ?v "''1.0.0''" "''2024-01-01T00:00:00+00:00''" ?d ?r]
    by blast
  from ok db have "http_status rep \<noteq> 200" by simp
  with bad db redis have "http_status rep = 503 \<and>
      (\<exists>c. components m = Some c \<and> map fst c = [''database'', ''redis''])"
    by simp
  with route model have
    "health_router ?v ''1.0.0'' ''2024-01-01T00:00:00+00:00'' ?d ?r ''/health/ready'' = Some rep
      \<and> http_body rep = Model m
      \<and> http_status rep = 503
      \<and> (\<exists>c. components m = Some c \<and> map fst c = [''database'', ''redis''])"
    by (intro conjI) (elim conjE, assumption)+
  then show ?thesis by (intro exI)
qed

text \<open>
  C5. The startup handler returns what the readiness handler returns, leaves the
  response object as the readiness handler leaves it and awaits the same checkers; the
  routes \<^verbatim>\<open>/health/startup\<close> and \<^verbatim>\<open>/health/ready\<close> answer with the same status code
  and body.
\<close>

theorem startup_is_readiness:
  "startup v ver now d r resp = readiness v ver now d r resp
   \<and> health_router v ver now d r ''/health/startup'' =
     health_router v ver now d r ''/health/ready''"
  by (simp add: startup_def health_router_def)

text \<open>
  C7, as the code has it. \<^verbatim>\<open>GET /health/live\<close> and \<^verbatim>\<open>GET /health\<close> answer 200 with
  status \<^verbatim>\<open>healthy\<close> whatever the configuration and whatever the checkers would report,
  and neither handler awaits a checker. The body of \<^verbatim>\<open>/health\<close> has exactly the fields
  \<^verbatim>\<open>status\<close>, \<^verbatim>\<open>version\<close> and \<^verbatim>\<open>timestamp\<close>. The liveness model has no components
  map, and the body of \<^verbatim>\<open>/health/live\<close> has a fourth field \<^verbatim>\<open>components\<close> whose value is
  always \<^verbatim>\<open>null\<close>.
\<close>

theorem liveness_routes:
  "(\<exists>rep m. health_router v ver now d r ''/health/live'' = Some rep
       \<and> http_status rep = 200
       \<and> http_body rep = Model m
       \<and> HealthStatus_value (HealthResponse.status m) = ''healthy''
       \<and> components m = None
       \<and> checkers_awaited rep = [])
   \<and> route_json v ver now d r ''/health/live'' =
       Some (JObject [(''status'', JString ''healthy''), (''version'', JString ver),
                      (''timestamp'', JString now), (''components'', JNull)])
   \<and> (\<exists>rep kvs. health_router v ver now d r ''/health'' = Some rep
       \<and> http_status rep = 200
       \<and> http_body rep = Dict kvs
       \<and> map_of kvs ''status'' = Some ''healthy''
       \<and> map fst kvs = [''status'', ''version'', ''timestamp'']
       \<and> ''components'' \<notin> set (map fst kvs)
       \<and> checkers_awaited rep = [])
   \<and> route_json v ver now d r ''/health'' =
       Some (JObject [(''status'', JString ''healthy''), (''version'', JString ver),
                      (''timestamp'', JString now)])
   \<and> awaited (liveness ver now) = []
   \<and> awaited (health ver now) = []"
proof (intro conjI)
  show "\<exists>rep m. health_router v ver now d r ''/health/live'' = Some rep
       \<and> http_status rep = 200
       \<and> http_body rep = Model m
       \<and> HealthStatus_value (HealthResponse.status m) = ''healthy''
       \<and> components m = None
       \<and> checkers_awaited rep = []"
    by (simp add: health_router_def liveness_def answer_def fresh_response_def Let_def)
next
  show "route_json v ver now d r ''/health/live'' =
       Some (JObject [(''status'', JString ''healthy''), (''version'', JString ver),
                      (''timestamp'', JString now), (''components'', JNull)])"
    by (simp add: route_json_def health_router_def liveness_def answer_def Let_def
        body_json_def HealthResponse_json_def)
next
  show "\<exists>rep kvs. health_router v ver now d r ''/health'' = Some rep
       \<and> http_status rep = 200
       \<and> http_body rep = Dict kvs
       \<and> map_of kvs ''status'' = Some ''healthy''
       \<and> map fst kvs = [''status'', ''version'', ''timestamp'']
       \<and> ''components'' \<notin> set (map fst kvs)
       \<and> checkers_awaited rep = []"
    by (simp add: health_router_def health_def answer_def fresh_response_def Let_def)
next
  show "route_json v ver now d r ''/health'' =
       Some (JObject [(''status'', JString ''healthy''), (''version'', JString ver),
                      (''timestamp'', JString now)])"
    by (simp add: route_json_def health_router_def health_def answer_def Let_def
        body_json_def)
next
  show "awaited (liveness ver now) = []"
    by (simp add: liveness_def)
next
  show "awaited (health ver now) = []"
    by (simp add: health_def)
qed

text \<open>
  C7 as stated fails for \<^verbatim>\<open>/health/live\<close>: the body that is sent includes the field
  \<^verbatim>\<open>components\<close>, with the value \<^verbatim>\<open>null\<close>.
\<close>

theorem liveness_components_counterexample:
  "''components'' \<in> set (json_fields (the (route_json
      \<lparr> database = ''none'', orm = ''none'', cache = ''none'' \<rparr>
      ''1.0.0'' ''2024-01-01T00:00:00+00:00''
      \<lparr> ComponentHealth.status = HEALTHY, latency_ms = None, message = None \<rparr>
      \<lparr> ComponentHealth.status = HEALTHY, latency_ms = None, message = None \<rparr>
      ''/health/live'')))
   \<and> route_json
      \<lparr> database = ''none'', orm = ''none'', cache = ''none'' \<rparr>
      ''1.0.0'' ''2024-01-01T00:00:00+00:00''
      \<lparr> ComponentHealth.status = HEALTHY, latency_ms = None, message = None \<rparr>
      \<lparr> ComponentHealth.status = HEALTHY, latency_ms = None, message = None \<rparr>
      ''/health/live''
     = Some (JObject [(''status'', JString ''healthy''), (''version'', JString ''1.0.0''),
                      (''timestamp'', JString ''2024-01-01T00:00:00+00:00''),
                      (''components'', JNull)])"
  by (simp add: route_json_def health_router_def liveness_def answer_def Let_def
      body_json_def HealthResponse_json_def)

section \<open>Properties of the security headers\<close>

lemma send_wrapper_type: "message_type (send_wrapper m) = message_type m"
  by (simp add: send_wrapper_def)

lemma send_wrapper_status: "message_status (send_wrapper m) = message_status m"
  by (simp add: send_wrapper_def)

lemma send_wrapper_start:
  "message_type m = ''http.response.start'' \<Longrightarrow>
     get_headers (send_wrapper m) = get_headers m @ security_headers"
  by (simp add: send_wrapper_def get_headers_def)

text \<open>
  What the middleware does for the messages that reach it. In an HTTP scope, every
  message that starts a response and leaves through \<^verbatim>\<open>SecurityHeadersMiddleware\<close> carries
  the six security headers, whatever application is wrapped and whatever the status code
  of the response. The names are in lower case, as the code writes them; header names do
  not distinguish case.
\<close>

theorem security_headers_present:
  assumes http: "scope_type scope = ''http''"
    and sent: "msg \<in> set (fst (SecurityHeadersMiddleware app scope))"
    and start: "message_type msg = ''http.response.start''"
  shows "(''x-content-type-options'', ''nosniff'') \<in> set (get_headers msg)
       \<and> (''x-frame-options'', ''DENY'') \<in> set (get_headers msg)
       \<and> (''x-xss-protection'', ''1; mode=block'') \<in> set (get_headers msg)
       \<and> (''strict-transport-security'', ''max-age=31536000; includeSubDomains'')
            \<in> set (get_headers msg)
       \<and> (''cache-control'', ''no-store'') \<in> set (get_headers msg)
       \<and> (''content-security-policy'', ''default-src '' @ [CHR 0x27] @ ''self'' @ [CHR 0x27])
            \<in> set (get_headers msg)"
proof -
  from http sent have "msg \<in> send_wrapper ` set (fst (app scope))"
    by (simp add: SecurityHeadersMiddleware_def split_beta)
  then obtain m where m: "m \<in> set (fst (app scope))" and msg: "msg = send_wrapper m"
    by blast
  from start msg have "message_type m = ''http.response.start''"
    by (simp add: send_wrapper_type)
  then have "get_headers msg = get_headers m @ security_headers"
    unfolding msg by (rule send_wrapper_start)
  then have "set security_headers \<subseteq> set (get_headers msg)"
    by simp
  then show ?thesis
    by (simp add: security_headers_def)
qed

text \<open>
  An instance: the start of a 404 response, as it leaves the middleware, has the
  application's own header followed by the six security headers.
\<close>

theorem security_headers_present_witness:
  "scope_type \<lparr> scope_type = ''http'', scope_path = ''/missing'' \<rparr> = ''http''
   \<and> \<lparr> message_type = ''http.response.start'',
        message_headers = Some ((''content-type'', ''application/json'') # security_headers),
        message_status = Some 404 \<rparr>
       \<in> set (fst (SecurityHeadersMiddleware not_found_app
                     \<lparr> scope_type = ''http'', scope_path = ''/missing'' \<rparr>))
   \<and> (''cache-control'', ''no-store'') \<in> set (get_headers
        \<lparr> message_type = ''http.response.start'',
          message_headers = Some ((''content-type'', ''application/json'') # security_headers),
          message_status = Some 404 \<rparr>)"
proof -
  let ?scope = "\<lparr> scope_type = ''http'', scope_path = ''/missing'' \<rparr>"
  let ?msg = "\<lparr> message_type = ''http.response.start'',
        message_headers = Some ((''content-type'', ''application/json'') # security_headers),
        message_status = Some 404 \<rparr>"
  have http: "scope_type ?scope = ''http''" by simp
  have sent: "?msg \<in> set (fst (SecurityHeadersMiddleware not_found_app ?scope))"
    by (simp add: SecurityHeadersMiddleware_def not_found_app_def send_wrapper_def
        get_headers_def)
  have start: "message_type ?msg = ''http.response.start''" by simp
  from security_headers_present [OF http sent start] http sent
  show ?thesis by simp
qed

text \<open>
  C6 fails on the code. \<^verbatim>\<open>GET /api/v1/examples/00000000-0000-0000-0000-000000000000\<close>
  for an identifier that is not stored raises \<^verbatim>\<open>NotFoundError\<close>, for which no handler is
  registered. Nothing passes through \<^verbatim>\<open>SecurityHeadersMiddleware\<close>, and the 500 response
  that the outermost layer then sends has none of the six security headers.
\<close>

theorem security_headers_missing_on_500:
  "SecurityHeadersMiddleware unhandled_app
       \<lparr> scope_type = ''http'',
         scope_path = ''/api/v1/examples/00000000-0000-0000-0000-000000000000'' \<rparr>
     = ([], Some not_found_message)
   \<and> fst (ServerErrorMiddleware (SecurityHeadersMiddleware unhandled_app)
       \<lparr> scope_type = ''http'',
         scope_path = ''/api/v1/examples/00000000-0000-0000-0000-000000000000'' \<rparr>)
     = [\<lparr> message_type = ''http.response.start'',
          message_headers = Some [(''content-length'', ''21''),
                                  (''content-type'', ''text/plain; charset=utf-8'')],
          message_status = Some 500 \<rparr>,
        \<lparr> message_type = ''http.response.body'', message_headers = None,
          message_status = None \<rparr>]
   \<and> set security_headers \<inter>
       set (get_headers
         \<lparr> message_type = ''http.response.start'',
           message_headers = Some [(''content-length'', ''21''),
                                   (''content-type'', ''text/plain; charset=utf-8'')],
           message_status = Some 500 \<rparr>) = {}"
  by (simp add: SecurityHeadersMiddleware_def ServerErrorMiddleware_def unhandled_app_def
      security_headers_def get_headers_def)

section \<open>Properties of the component checkers\<close>

lemma round_half_even_close: "\<bar>of_int (round_half_even x) - x\<bar> \<le> 1 / 2"
  unfolding round_half_even_def Let_def by (auto simp: abs_le_iff)

lemma py_round_2_close: "\<bar>py_round x 2 - x\<bar> \<le> 1 / 200"
proof -
  define k where "k = round_half_even (x * 100)"
  have "\<bar>of_int k - x * 100\<bar> \<le> 1 / 2"
    unfolding k_def by (rule round_half_even_close)
  then have "\<bar>of_int k / 100 - x\<bar> \<le> 1 / 200"
    by (simp add: abs_le_iff field_simps)
  then show ?thesis by (simp add: py_round_def k_def)
qed

lemma py_round_2_hundredths: "\<exists>k::int. py_round x 2 = of_int k / 100"
  by (simp add: py_round_def)

lemma py_round_2250: "py_round 2250 2 = 2250"
  by (simp add: py_round_def round_half_even_def Let_def)

text \<open>
  C8. \<^verbatim>\<open>check_db_health\<close> and \<^verbatim>\<open>check_redis_health\<close> return a
  \<^verbatim>\<open>ComponentHealth\<close> for every outcome of the probe and never raise. When the probe
  raises, the result is \<^verbatim>\<open>unhealthy\<close>, its message is the description of the exception
  and its latency is the elapsed time in milliseconds, rounded to two decimals. The redis
  probe runs only when the pool is set.
\<close>

theorem checkers_never_raise:
  "(\<exists>h. fst (check_db_health start finish probe w) = Return h
        \<and> (\<forall>e. probe = Raise e \<longrightarrow>
              ComponentHealth.status h = UNHEALTHY \<and> message h = Some e
              \<and> latency_ms h = Some (py_round ((finish - start) * 1000) 2)))
   \<and> (\<exists>h. fst (check_redis_health redis_pool start finish probe w) = Return h
        \<and> (\<forall>e. redis_pool \<and> probe = Raise e \<longrightarrow>
              ComponentHealth.status h = UNHEALTHY \<and> message h = Some e
              \<and> latency_ms h = Some (py_round ((finish - start) * 1000) 2)))"
proof (intro conjI)
  show "\<exists>h. fst (check_db_health start finish probe w) = Return h
        \<and> (\<forall>e. probe = Raise e \<longrightarrow>
              ComponentHealth.status h = UNHEALTHY \<and> message h = Some e
              \<and> latency_ms h = Some (py_round ((finish - start) * 1000) 2))"
    by (cases probe) (simp_all add: check_db_health_def Let_def)
next
  show "\<exists>h. fst (check_redis_health redis_pool start finish probe w) = Return h
        \<and> (\<forall>e. redis_pool \<and> probe = Raise e \<longrightarrow>
              ComponentHealth.status h = UNHEALTHY \<and> message h = Some e
              \<and> latency_ms h = Some (py_round ((finish - start) * 1000) 2))"
    by (cases probe) (simp_all add: check_redis_health_def Let_def)
qed

text \<open>
  An instance of C8: a probe that raises after 2.25 seconds gives \<^verbatim>\<open>unhealthy\<close> with a
  latency of 2250 ms and the description as message.
\<close>

theorem checkers_never_raise_witness:
  "(\<exists>h. fst (check_db_health 1.25 3.5 (Raise ''connection refused'')
               \<lparr> correlation_id_ctx = ''abc'', logged = [] \<rparr>) = Return h
        \<and> ComponentHealth.status h = UNHEALTHY
        \<and> message h = Some ''connection refused''
        \<and> latency_ms h = Some 2250)
   \<and> (\<exists>h. fst (check_redis_health True 1.25 3.5 (Raise ''connection refused'')
               \<lparr> correlation_id_ctx = ''abc'', logged = [] \<rparr>) = Return h
        \<and> ComponentHealth.status h = UNHEALTHY
        \<and> message h = Some ''connection refused''
        \<and> latency_ms h = Some 2250)"
  using checkers_never_raise [of "1.25" "3.5" "Raise ''connection refused''"
      "\<lparr> correlation_id_ctx = ''abc'', logged = [] \<rparr>" True]
  by (simp add: py_round_2250)

section \<open>Properties of the request logging\<close>

lemma startswith_api: "\<not> startswith ''/api/v1/examples'' ''/health''"
  by (simp add: startswith_def)

lemma startswith_ready: "startswith ''/health/ready'' ''/health''"
  by (simp add: startswith_def)

text \<open>
  C9. When the rest of the pipeline returns a response, the logging middleware returns
  that response. For a path that does not start with \<^verbatim>\<open>/health\<close> it hands exactly one
  event to the logger, after whatever the pipeline logged: \<^verbatim>\<open>http_request\<close> with the
  method, the path, the status code, the duration and the client host (or \<^verbatim>\<open>None\<close>).
  The duration is the elapsed time in milliseconds rounded to two decimals: a whole
  number of hundredths, at most half a hundredth from the elapsed time. For a path that
  starts with \<^verbatim>\<open>/health\<close> it logs nothing.
\<close>

theorem request_logged_once:
  assumes down: "call_next request w = (Return resp, w1)"
  shows "fst (RequestLoggingMiddleware_dispatch t0 t1 request call_next w) = Return resp
       \<and> (startswith (path request) ''/health'' \<longrightarrow>
            snd (RequestLoggingMiddleware_dispatch t0 t1 request call_next w) = w1)
       \<and> (\<not> startswith (path request) ''/health'' \<longrightarrow>
            (\<exists>d. snd (RequestLoggingMiddleware_dispatch t0 t1 request call_next w) =
                   w1\<lparr> logged := logged w1 @
                     [\<lparr> level = INFO, event = ''http_request'',
                        kwargs =
                          [(''method'', PyStr (request_method request)),
                           (''path'', PyStr (path request)),
                           (''status_code'',
                              (case status_code resp of None \<Rightarrow> PyNone | Some c \<Rightarrow> PyInt c)),
                           (''duration_ms'', PyFloat d),
                           (''client_ip'',
                              (case client request of None \<Rightarrow> PyNone
                               | Some a \<Rightarrow> PyStr (fst a)))] \<rparr>] \<rparr>
                \<and> d = py_round ((t1 - t0) * 1000) 2
                \<and> (\<exists>k::int. d = of_int k / 100)
                \<and> \<bar>d - (t1 - t0) * 1000\<bar> \<le> 1 / 200))"
proof (intro conjI impI)
  show "fst (RequestLoggingMiddleware_dispatch t0 t1 request call_next w) = Return resp"
    using down by (simp add: RequestLoggingMiddleware_dispatch_def Let_def)
next
  assume "startswith (path request) ''/health''"
  with down show "snd (RequestLoggingMiddleware_dispatch t0 t1 request call_next w) = w1"
    by (simp add: RequestLoggingMiddleware_dispatch_def Let_def)
next
  assume other: "\<not> startswith (path request) ''/health''"
  let ?d = "py_round ((t1 - t0) * 1000) 2"
  have ip: "(case client request of None \<Rightarrow> PyNone | Some (host, port) \<Rightarrow> PyStr host) =
            (case client request of None \<Rightarrow> PyNone | Some a \<Rightarrow> PyStr (fst a))"
    by (simp split: option.split prod.split)
  have "snd (RequestLoggingMiddleware_dispatch t0 t1 request call_next w) =
          w1\<lparr> logged := logged w1 @
            [\<lparr> level = INFO, event = ''http_request'',
               kwargs =
                 [(''method'', PyStr (request_method request)),
                  (''path'', PyStr (path request)),
                  (''status_code'',
                     (case status_code resp of None \<Rightarrow> PyNone | Some c \<Rightarrow> PyInt c)),
                  (''duration_ms'', PyFloat ?d),
                  (''client_ip'',
                     (case client request of None \<Rightarrow> PyNone
                      | Some a \<Rightarrow> PyStr (fst a)))] \<rparr>] \<rparr>"
    using down other
    by (simp add: RequestLoggingMiddleware_dispatch_def Let_def emit_def ip)
  moreover have "\<exists>k::int. ?d = of_int k / 100" by (rule py_round_2_hundredths)
  moreover have "\<bar>?d - (t1 - t0) * 1000\<bar> \<le> 1 / 200" by (rule py_round_2_close)
  ultimately show "\<exists>d. snd (RequestLoggingMiddleware_dispatch t0 t1 request call_next w) =
                   w1\<lparr> logged := logged w1 @
                     [\<lparr> level = INFO, event = ''http_request'',
                        kwargs =
                          [(''method'', PyStr (request_method request)),
                           (''path'', PyStr (path request)),
                           (''status_code'',
                              (case status_code resp of None \<Rightarrow> PyNone | Some c \<Rightarrow> PyInt c)),
                           (''duration_ms'', PyFloat d),
                           (''client_ip'',
                              (case client request of None \<Rightarrow> PyNone
                               | Some a \<Rightarrow> PyStr (fst a)))] \<rparr>] \<rparr>
                \<and> d = py_round ((t1 - t0) * 1000) 2
                \<and> (\<exists>k::int. d = of_int k / 100)
                \<and> \<bar>d - (t1 - t0) * 1000\<bar> \<le> 1 / 200"
    by (intro exI [of _ ?d] conjI refl)
qed

text \<open>
  An instance of C9: one event for \<^verbatim>\<open>GET /api/v1/examples\<close> that took 2.25 seconds,
  none for \<^verbatim>\<open>GET /health/ready\<close>.
\<close>

theorem request_logged_once_witness:
  "logged (snd (RequestLoggingMiddleware_dispatch 1.25 3.5
       \<lparr> request_method = ''GET'', path = ''/api/v1/examples'', headers = Map.empty,
         client = Some (''10.0.0.7'', 51234) \<rparr>
       echo_context \<lparr> correlation_id_ctx = ''abc'', logged = [] \<rparr>))
     = [\<lparr> level = INFO, event = ''http_request'',
          kwargs = [(''method'', PyStr ''GET''), (''path'', PyStr ''/api/v1/examples''),
                    (''status_code'', PyInt 200), (''duration_ms'', PyFloat 2250),
                    (''client_ip'', PyStr ''10.0.0.7'')] \<rparr>]
   \<and> logged (snd (RequestLoggingMiddleware_dispatch 1.25 3.5
       \<lparr> request_method = ''GET'', path = ''/health/ready'', headers = Map.empty,
         client = Some (''10.0.0.7'', 51234) \<rparr>
       echo_context \<lparr> correlation_id_ctx = ''abc'', logged = [] \<rparr>)) = []"
proof -
  let ?w = "\<lparr> correlation_id_ctx = ''abc'', logged = [] \<rparr>"
  let ?api = "\<lparr> request_method = ''GET'', path = ''/api/v1/examples'', headers = Map.empty,
         client = Some (''10.0.0.7'', 51234) \<rparr>"
  let ?probe = "\<lparr> request_method = ''GET'', path = ''/health/ready'', headers = Map.empty,
         client = Some (''10.0.0.7'', 51234) \<rparr>"
  let ?resp = "\<lparr> status_code = Some 200,
                 headers = [''x-seen-correlation-id'' \<mapsto> ''abc''] \<rparr>"
  have api: "echo_context ?api ?w = (Return ?resp, ?w)"
    by (simp add: echo_context_def)
  have probe: "echo_context ?probe ?w = (Return ?resp, ?w)"
    by (simp add: echo_context_def)
  from api request_logged_once [of echo_context ?api ?w ?resp ?w "1.25" "3.5"]
  have "logged (snd (RequestLoggingMiddleware_dispatch 1.25 3.5 ?api echo_context ?w))
     = [\<lparr> level = INFO, event = ''http_request'',
          kwargs = [(''method'', PyStr ''GET''), (''path'', PyStr ''/api/v1/examples''),
                    (''status_code'', PyInt 200), (''duration_ms'', PyFloat 2250),
                    (''client_ip'', PyStr ''10.0.0.7'')] \<rparr>]"
    by (auto simp: startswith_api py_round_2250)
  moreover from probe request_logged_once [of echo_context ?probe ?w ?resp ?w "1.25" "3.5"]
  have "logged (snd (RequestLoggingMiddleware_dispatch 1.25 3.5 ?probe echo_context ?w)) = []"
    by (simp add: startswith_ready)
  ultimately show ?thesis by simp
qed

section \<open>Properties of the correlation id\<close>

lemma hex_digit_values:
  "hex_digit 0 = CHR ''0''" "hex_digit (Suc 0) = CHR ''1''" "hex_digit 2 = CHR ''2''"
  "hex_digit 3 = CHR ''3''" "hex_digit 4 = CHR ''4''" "hex_digit 5 = CHR ''5''"
  "hex_digit 6 = CHR ''6''" "hex_digit 7 = CHR ''7''" "hex_digit 8 = CHR ''8''"
  "hex_digit 9 = CHR ''9''" "hex_digit 10 = CHR ''a''" "hex_digit 11 = CHR ''b''"
  "hex_digit 12 = CHR ''c''" "hex_digit 13 = CHR ''d''" "hex_digit 14 = CHR ''e''"
  "hex_digit 15 = CHR ''f''"
  by (simp_all add: hex_digit_def)

lemma hex_step: "hex (Suc n) v = hex n (v div 16) @ [hex_digit (v mod 16)]"
  by (simp add: hex_digit_def)

lemma hex_numeral:
  "hex (numeral k) v = hex (pred_numeral k) (v div 16) @ [hex_digit (v mod 16)]"
  by (metis hex_step numeral_eq_Suc)

lemma hex_one: "hex (Suc 0) v = [hex_digit (v mod 16)]"
  using hex_step [of 0 v] by simp

lemma hex_example:
  "hex 32 0x123e4567e89b42d3a456426614174000 = ''123e4567e89b42d3a456426614174000''"
  by (simp add: hex_numeral hex_one hex_digit_values del: hex.simps)

lemma unat_example:
  "unat (0x123e4567e89b42d3a456426614174000 :: 128 word) = 0x123e4567e89b42d3a456426614174000"
  by simp

lemma UUID_str_example:
  "UUID_str 0x123e4567e89b42d3a456426614174000 = ''123e4567-e89b-42d3-a456-426614174000''"
  unfolding UUID_str_def unat_example hex_example by simp

lemma length_hex: "length (hex n v) = n"
  by (induction n arbitrary: v) simp_all

lemma UUID_str_length: "length (UUID_str u) = 36"
  by (simp add: UUID_str_def Let_def length_hex)

lemma UUID_str_nonempty: "UUID_str u \<noteq> []"
  using UUID_str_length [of u] by auto

text \<open>
  C4, as the code has it. For a request without the header \<^verbatim>\<open>X-Correlation-ID\<close>,
  the middleware generates an identifier, which is not empty, stores it in the context
  variable and runs the rest of the pipeline in that state. When the rest of the
  pipeline returns a response, the middleware sets the header of that response to the
  identifier; when it raises, the middleware raises the same exception and returns no
  response. For a request that supplies a value that is not empty, the same happens with
  the supplied value, which is returned unchanged. The hypotheses on \<open>call_next\<close> are
  stated in the state that holds the identifier: that is the state the rest of the
  pipeline sees.
\<close>

theorem correlation_id_assigned:
  "(Request.headers request HEADER_NAME = None \<longrightarrow>
      UUID_str u \<noteq> [] \<and>
      (\<forall>resp w'. call_next request (w\<lparr> correlation_id_ctx := UUID_str u \<rparr>) = (Return resp, w')
         \<longrightarrow> CorrelationIdMiddleware_dispatch u request call_next w =
               (Return (resp\<lparr> Response.headers :=
                          (Response.headers resp)(HEADER_NAME \<mapsto> UUID_str u) \<rparr>), w')) \<and>
      (\<forall>e w'. call_next request (w\<lparr> correlation_id_ctx := UUID_str u \<rparr>) = (Raise e, w')
         \<longrightarrow> CorrelationIdMiddleware_dispatch u request call_next w = (Raise e, w')))
   \<and> (\<forall>v. Request.headers request HEADER_NAME = Some v \<and> v \<noteq> [] \<longrightarrow>
      (\<forall>resp w'. call_next request (w\<lparr> correlation_id_ctx := v \<rparr>) = (Return resp, w')
         \<longrightarrow> CorrelationIdMiddleware_dispatch u request call_next w =
               (Return (resp\<lparr> Response.headers :=
                          (Response.headers resp)(HEADER_NAME \<mapsto> v) \<rparr>), w')) \<and>
      (\<forall>e w'. call_next request (w\<lparr> correlation_id_ctx := v \<rparr>) = (Raise e, w')
         \<longrightarrow> CorrelationIdMiddleware_dispatch u request call_next w = (Raise e, w')))"
proof (intro conjI impI allI)
  show "UUID_str u \<noteq> []" by (rule UUID_str_nonempty)
next
  fix resp w'
  assume "Request.headers request HEADER_NAME = None"
  then have "py_or (Request.headers request HEADER_NAME) (UUID_str u) = UUID_str u"
    by (simp add: py_or_def)
  moreover assume "call_next request (w\<lparr> correlation_id_ctx := UUID_str u \<rparr>) = (Return resp, w')"
  ultimately show "CorrelationIdMiddleware_dispatch u request call_next w =
      (Return (resp\<lparr> Response.headers :=
                 (Response.headers resp)(HEADER_NAME \<mapsto> UUID_str u) \<rparr>), w')"
    by (simp add: CorrelationIdMiddleware_dispatch_def Let_def)
next
  fix e w'
  assume "Request.headers request HEADER_NAME = None"
  then have "py_or (Request.headers request HEADER_NAME) (UUID_str u) = UUID_str u"
    by (simp add: py_or_def)
  moreover assume "call_next request (w\<lparr> correlation_id_ctx := UUID_str u \<rparr>) = (Raise e, w')"
  ultimately show "CorrelationIdMiddleware_dispatch u request call_next w = (Raise e, w')"
    by (simp add: CorrelationIdMiddleware_dispatch_def Let_def)
next
  fix v resp w'
  assume "Request.headers request HEADER_NAME = Some v \<and> v \<noteq> []"
  then have "py_or (Request.headers request HEADER_NAME) (UUID_str u) = v"
    by (simp add: py_or_def)
  moreover assume "call_next request (w\<lparr> correlation_id_ctx := v \<rparr>) = (Return resp, w')"
  ultimately show "CorrelationIdMiddleware_dispatch u request call_next w =
      (Return (resp\<lparr> Response.headers := (Response.headers resp)(HEADER_NAME \<mapsto> v) \<rparr>), w')"
    by (simp add: CorrelationIdMiddleware_dispatch_def Let_def)
next
  fix v e w'
  assume "Request.headers request HEADER_NAME = Some v \<and> v \<noteq> []"
  then have "py_or (Request.headers request HEADER_NAME) (UUID_str u) = v"
    by (simp add: py_or_def)
  moreover assume "call_next request (w\<lparr> correlation_id_ctx := v \<rparr>) = (Raise e, w')"
  ultimately show "CorrelationIdMiddleware_dispatch u request call_next w = (Raise e, w')"
    by (simp add: CorrelationIdMiddleware_dispatch_def Let_def)
qed

text \<open>
  Instances of C4 as amended. Without the header, the response carries the generated
  identifier, and the downstream handler saw it in the context; with the header
  \<^verbatim>\<open>req-42\<close>, the response carries \<^verbatim>\<open>req-42\<close>; with a handler that raises, the
  dispatch raises and the context holds \<^verbatim>\<open>req-42\<close>.
\<close>

theorem correlation_id_assigned_witness:
  "response_header (fst (CorrelationIdMiddleware_dispatch 0x123e4567e89b42d3a456426614174000
       \<lparr> request_method = ''GET'', path = ''/api/v1/examples'', headers = Map.empty, client = None \<rparr>
       echo_context \<lparr> correlation_id_ctx = [], logged = [] \<rparr>)) HEADER_NAME = Some ''123e4567-e89b-42d3-a456-426614174000''
   \<and> response_header (fst (CorrelationIdMiddleware_dispatch 0x123e4567e89b42d3a456426614174000
       \<lparr> request_method = ''GET'', path = ''/api/v1/examples'', headers = Map.empty, client = None \<rparr>
       echo_context \<lparr> correlation_id_ctx = [], logged = [] \<rparr>)) ''x-seen-correlation-id'' = Some ''123e4567-e89b-42d3-a456-426614174000''
   \<and> response_header (fst (CorrelationIdMiddleware_dispatch 0x123e4567e89b42d3a456426614174000
       \<lparr> request_method = ''GET'', path = ''/api/v1/examples'', headers = [HEADER_NAME \<mapsto> ''req-42''], client = None \<rparr>
       echo_context \<lparr> correlation_id_ctx = [], logged = [] \<rparr>)) HEADER_NAME = Some ''req-42''
   \<and> CorrelationIdMiddleware_dispatch 0x123e4567e89b42d3a456426614174000
       \<lparr> request_method = ''GET'', path = ''/api/v1/examples'', headers = [HEADER_NAME \<mapsto> ''req-42''], client = None \<rparr>
       not_found_handler \<lparr> correlation_id_ctx = [], logged = [] \<rparr>
     = (Raise not_found_message, \<lparr> correlation_id_ctx = ''req-42'', logged = [] \<rparr>)"
proof -
  let ?u = "0x123e4567e89b42d3a456426614174000 :: 128 word"
  let ?w = "\<lparr> correlation_id_ctx = [], logged = [] \<rparr>"
  let ?absent = "\<lparr> request_method = ''GET'', path = ''/api/v1/examples'', headers = Map.empty, client = None \<rparr>"
  let ?given = "\<lparr> request_method = ''GET'', path = ''/api/v1/examples'', headers = [HEADER_NAME \<mapsto> ''req-42''], client = None \<rparr>"
  let ?seen = "\<lambda>cid. \<lparr> status_code = Some 200,
                        headers = [''x-seen-correlation-id'' \<mapsto> cid] \<rparr>"
  have absent: "Request.headers ?absent HEADER_NAME = None"
    by simp
  have down0: "echo_context ?absent (?w\<lparr> correlation_id_ctx := UUID_str ?u \<rparr>) =
      (Return (?seen (UUID_str ?u)), ?w\<lparr> correlation_id_ctx := UUID_str ?u \<rparr>)"
    by (simp add: echo_context_def)
  have given: "Request.headers ?given HEADER_NAME = Some ''req-42'' \<and> ''req-42'' \<noteq> []"
    by simp
  have down1: "echo_context ?given (?w\<lparr> correlation_id_ctx := ''req-42'' \<rparr>) =
      (Return (?seen ''req-42''), ?w\<lparr> correlation_id_ctx := ''req-42'' \<rparr>)"
    by (simp add: echo_context_def)
  have down2: "not_found_handler ?given (?w\<lparr> correlation_id_ctx := ''req-42'' \<rparr>) =
      (Raise not_found_message, ?w\<lparr> correlation_id_ctx := ''req-42'' \<rparr>)"
    by (simp add: not_found_handler_def)
  have "CorrelationIdMiddleware_dispatch ?u ?absent echo_context ?w =
      (Return ((?seen (UUID_str ?u))\<lparr> Response.headers :=
          (Response.headers (?seen (UUID_str ?u)))(HEADER_NAME \<mapsto> UUID_str ?u) \<rparr>),
       ?w\<lparr> correlation_id_ctx := UUID_str ?u \<rparr>)"
    using correlation_id_assigned [of ?absent ?u echo_context ?w] absent down0 by blast
  moreover have "CorrelationIdMiddleware_dispatch ?u ?given echo_context ?w =
      (Return ((?seen ''req-42'')\<lparr> Response.headers :=
          (Response.headers (?seen ''req-42''))(HEADER_NAME \<mapsto> ''req-42'') \<rparr>),
       ?w\<lparr> correlation_id_ctx := ''req-42'' \<rparr>)"
    using correlation_id_assigned [of ?given ?u echo_context ?w] given down1 by blast
  moreover have "CorrelationIdMiddleware_dispatch ?u ?given not_found_handler ?w =
      (Raise not_found_message, ?w\<lparr> correlation_id_ctx := ''req-42'' \<rparr>)"
    using correlation_id_assigned [of ?given ?u not_found_handler ?w] given down2 by blast
  ultimately show ?thesis
    by (simp add: response_header_def UUID_str_example HEADER_NAME_def)
qed

text \<open>
  C4 as stated fails twice. For a request that supplies the header with an empty value,
  the response carries a generated identifier, not the supplied value. For a request
  whose handler raises, the middleware returns no response, so it sets no header.
\<close>

theorem supplied_empty_id_counterexample:
  "Request.headers
       \<lparr> request_method = ''GET'', path = ''/api/v1/examples'', headers = [HEADER_NAME \<mapsto> []], client = None \<rparr>
       HEADER_NAME = Some []
   \<and> response_header (fst (CorrelationIdMiddleware_dispatch 0x123e4567e89b42d3a456426614174000
       \<lparr> request_method = ''GET'', path = ''/api/v1/examples'', headers = [HEADER_NAME \<mapsto> []], client = None \<rparr>
       echo_context \<lparr> correlation_id_ctx = [], logged = [] \<rparr>)) HEADER_NAME = Some ''123e4567-e89b-42d3-a456-426614174000''
   \<and> fst (CorrelationIdMiddleware_dispatch 0x123e4567e89b42d3a456426614174000
       \<lparr> request_method = ''GET'', path = ''/api/v1/examples'', headers = Map.empty, client = None \<rparr>
       not_found_handler \<lparr> correlation_id_ctx = [], logged = [] \<rparr>) = Raise not_found_message
   \<and> response_header (fst (CorrelationIdMiddleware_dispatch 0x123e4567e89b42d3a456426614174000
       \<lparr> request_method = ''GET'', path = ''/api/v1/examples'', headers = Map.empty, client = None \<rparr>
       not_found_handler \<lparr> correlation_id_ctx = [], logged = [] \<rparr>)) HEADER_NAME = None"
  by (simp add: CorrelationIdMiddleware_dispatch_def echo_context_def not_found_handler_def
      py_or_def Let_def response_header_def UUID_str_example)



end
